theory Spec2Isabelle
  imports Main
begin

section \<open>Strings as the launcher sees them\<close>

text \<open>
  The launcher (\<^verbatim>\<open>canvas/src/terminal.ts\<close>) only moves text around: environment values,
  a shell command line, a pane identifier kept in a file, and the arguments of the
  external programs it starts. A JavaScript string is modelled as a \<^typ>\<open>string\<close>
  whose characters are the code points below 256.

  \<^verbatim>\<open>String.prototype.trim\<close> removes white space and line terminators at both
  ends; below 256 these are TAB, LF, VT, FF, CR, SPACE and NBSP.
\<close>

definition is_js_space :: "char \<Rightarrow> bool" where
  "is_js_space c =
     (c = CHR 0x09 \<or> c = CHR 0x0A \<or> c = CHR 0x0B \<or> c = CHR 0x0C \<or> c = CHR 0x0D \<or>
      c = CHR 0x20 \<or> c = CHR 0xA0)"

definition trim :: "string \<Rightarrow> string" where
  "trim s = rev (dropWhile is_js_space (rev (dropWhile is_js_space s)))"

text \<open>
  A value of type \<^verbatim>\<open>string | undefined\<close> used as a condition (\<^verbatim>\<open>!!v\<close>,
  \<^verbatim>\<open>if (v)\<close>, \<^verbatim>\<open>v || d\<close>) counts as true when it is defined and not empty.
\<close>

definition truthy :: "string option \<Rightarrow> bool" where
  "truthy v = (case v of None \<Rightarrow> False | Some s \<Rightarrow> s \<noteq> [])"

text \<open>
  \<^verbatim>\<open>s.replace(/c/g, r)\<close> for a one-character pattern and a replacement without
  \<^verbatim>\<open>$\<close>: every occurrence of the character is replaced, left to right.
\<close>

definition replace_all_char :: "char \<Rightarrow> string \<Rightarrow> string \<Rightarrow> string" where
  "replace_all_char c r s = concat (map (\<lambda>x. if x = c then r else [x]) s)"

text \<open>
  \<^verbatim>\<open>s.replace(pat, rep)\<close> with a string pattern: only the first occurrence is replaced.
\<close>

fun replace_first :: "string \<Rightarrow> string \<Rightarrow> string \<Rightarrow> string" where
  "replace_first pat rep [] = (if pat = [] then rep else [])"
| "replace_first pat rep (c # cs) =
     (if take (length pat) (c # cs) = pat then rep @ drop (length pat) (c # cs)
      else c # replace_first pat rep cs)"

section \<open>Environment detection\<close>

text \<open>
  What \<^verbatim>\<open>detectTerminal\<close> and \<^verbatim>\<open>spawnCanvas\<close> read from the process:
  \<^verbatim>\<open>process.env.TMUX\<close>, \<^verbatim>\<open>process.env.TERM_PROGRAM\<close>,
  \<^verbatim>\<open>process.platform\<close> and \<^verbatim>\<open>import.meta.dir\<close>.
\<close>

record process_env =
  env_TMUX :: "string option"
  env_TERM_PROGRAM :: "string option"
  platform :: string
  meta_dir :: string

record TerminalEnvironment =
  inTmux :: bool
  inGhostty :: bool
  isMacOS :: bool
  summary :: string

definition detectTerminal :: "process_env \<Rightarrow> TerminalEnvironment" where
  "detectTerminal p =
     (let inTmux = truthy (env_TMUX p);
          inGhostty = (env_TERM_PROGRAM p = Some ''ghostty'');
          isMacOS = (platform p = ''darwin'');
          summary =
            (if inGhostty \<and> isMacOS then ''ghostty (macOS)''
             else if inTmux then ''tmux''
             else ''unsupported'')
      in \<lparr>inTmux = inTmux, inGhostty = inGhostty, isMacOS = isMacOS, summary = summary\<rparr>)"

section \<open>The outside world\<close>

text \<open>
  The launcher acts on two things outside itself: files under \<^verbatim>\<open>/tmp\<close> and the
  programs \<^verbatim>\<open>tmux\<close> and \<^verbatim>\<open>osascript\<close>. The files are state; every
  action on the outside is also appended to a trace, so that the order of the actions and
  the absence of an action can be stated.

  One callback of the source can run after the promise it belongs to has been settled
  (see \<open>reuseExistingPane\<close> below). What it does happens 150 ms later, while the
  caller has already moved on: where it falls among the caller's later actions is a matter
  of timing. Such actions are recorded apart, in \<open>late\<close>, in the order they are issued.
\<close>

datatype file_state = Absent | Content string

datatype event =
    Spawn string "string list"
  | SpawnSync string "string list"
  | Write string string
  | Timeout nat

record world =
  fs :: "string \<Rightarrow> file_state"
  trace :: "event list"
  late :: "event list"

text \<open>
  A call of \<^verbatim>\<open>spawn\<close> has one of three outcomes.
  \<^item> \<open>Close code out\<close>: the process ran; its standard output \<open>out\<close> is delivered and
    then the \<^verbatim>\<open>close\<close> event carries the exit code (\<^verbatim>\<open>null\<close> when a signal
    ended it).
  \<^item> \<open>SpawnError\<close>: the process could not be started. The \<^verbatim>\<open>error\<close> event is
    delivered, and after it a \<^verbatim>\<open>close\<close> event, with a code other than 0 and no
    output: a \<^verbatim>\<open>close\<close> handler still runs.
  \<^item> \<open>SpawnThrows\<close>: the call itself throws (an argument holding a NUL character, for
    one). No process and no event follow.
  \<^verbatim>\<open>spawnSync\<close> returns \<^verbatim>\<open>status\<close> and \<^verbatim>\<open>stdout\<close> (both may be
  \<^verbatim>\<open>null\<close> when the program could not be run) or throws.

  How the programs answer is not decided by the launcher: it is a parameter. Within one
  call of \<^verbatim>\<open>spawnCanvas\<close> no command line is issued twice, so a function of the
  command line describes every possible behaviour. \<open>text_fails\<close> says for which paths
  reading an existing file throws. Writing a file is taken to succeed.
\<close>

datatype proc_end = Close "int option" string | SpawnError | SpawnThrows

datatype sync_result = Returned "int option" "string option" | Throws

record host =
  spawn :: "string \<Rightarrow> string list \<Rightarrow> proc_end"
  spawnSync :: "string \<Rightarrow> string list \<Rightarrow> sync_result"
  text_fails :: "string \<Rightarrow> bool"

text \<open>
  What can be thrown: the \<^verbatim>\<open>Error\<close> of \<open>spawnCanvas\<close> with its message, a
  failed read of a file, a throwing \<^verbatim>\<open>spawnSync\<close>, and a throwing
  \<^verbatim>\<open>spawn\<close>. The last comes in two kinds. Thrown inside the executor of a promise
  it rejects the promise (\<open>SpawnException\<close>), and every \<^verbatim>\<open>await\<close> on the way
  up throws it again. Thrown inside a timer callback nothing catches it
  (\<open>UncaughtException\<close>): the promise is never settled and the run ends there.
\<close>

datatype error = Error string | ReadError | HostError | SpawnException | UncaughtException

definition log_event :: "event \<Rightarrow> world \<Rightarrow> world" where
  "log_event e w = w\<lparr>trace := trace w @ [e]\<rparr>"

definition Bun_write :: "string \<Rightarrow> string \<Rightarrow> world \<Rightarrow> world" where
  "Bun_write path content w =
     w\<lparr>fs := (fs w)(path := Content content), trace := trace w @ [Write path content]\<rparr>"

section \<open>The pane registry\<close>

text \<open>
  \<^verbatim>\<open>const CANVAS_PANE_FILE = "/tmp/claude-canvas-pane-id"\<close>: the one file that
  remembers the pane opened last.
\<close>

definition CANVAS_PANE_FILE :: string where
  "CANVAS_PANE_FILE = ''/tmp/claude-canvas-pane-id''"

definition lookup_args :: "string \<Rightarrow> string list" where
  "lookup_args paneId = [''display-message'', ''-t'', paneId, ''-p'', ''#{pane_id}'']"

text \<open>
  The body of the \<^verbatim>\<open>try\<close> block of \<^verbatim>\<open>getCanvasPaneId\<close> (lines 110 to 122).
  \<open>Inl\<close> is an exception leaving the block; \<open>Inr None\<close> is reaching its end
  without a \<^verbatim>\<open>return\<close>.
\<close>

definition getCanvasPaneId_try :: "host \<Rightarrow> world \<Rightarrow> (error + string option) \<times> world" where
  "getCanvasPaneId_try h w =
     (case fs w CANVAS_PANE_FILE of
        Absent \<Rightarrow> (Inr None, w)
      | Content c \<Rightarrow>
          if text_fails h CANVAS_PANE_FILE then (Inl ReadError, w)
          else
            (let paneId = trim c;
                 w1 = log_event (SpawnSync ''tmux'' (lookup_args paneId)) w
             in case spawnSync h ''tmux'' (lookup_args paneId) of
                  Throws \<Rightarrow> (Inl HostError, w1)
                | Returned status stdout \<Rightarrow>
                    (let output = map_option trim stdout
                     in if status = Some 0 \<and> output = Some paneId then (Inr (Some paneId), w1)
                        else (Inr None, Bun_write CANVAS_PANE_FILE [] w1))))"

text \<open>
  \<^verbatim>\<open>getCanvasPaneId\<close>: the \<^verbatim>\<open>catch\<close> ignores the exception and the function
  returns \<^verbatim>\<open>null\<close> (line 126).
\<close>

definition getCanvasPaneId :: "host \<Rightarrow> world \<Rightarrow> (error + string option) \<times> world" where
  "getCanvasPaneId h w =
     (case getCanvasPaneId_try h w of
        (Inl e, w') \<Rightarrow> (Inr None, w')
      | (Inr r, w') \<Rightarrow> (Inr r, w'))"

definition saveCanvasPaneId :: "string \<Rightarrow> world \<Rightarrow> world" where
  "saveCanvasPaneId paneId w = Bun_write CANVAS_PANE_FILE paneId w"

section \<open>The multiplexer adapter\<close>

definition split_args :: "string \<Rightarrow> string list" where
  "split_args command =
     [''split-window'', ''-h'', ''-p'', ''67'', ''-P'', ''-F'', ''#{pane_id}'', command]"

text \<open>
  \<^verbatim>\<open>createNewPane\<close>: the promise resolves with \<^verbatim>\<open>code === 0\<close> on
  \<^verbatim>\<open>close\<close>, after the pane id has been saved when there is one, and with
  \<^verbatim>\<open>false\<close> on \<^verbatim>\<open>error\<close> (the \<^verbatim>\<open>close\<close> that follows has no
  output, so it saves nothing, and the promise is settled already). The call of
  \<^verbatim>\<open>spawn\<close> stands in the executor of the promise: when it throws, the promise is
  rejected.
\<close>

definition createNewPane :: "host \<Rightarrow> string \<Rightarrow> world \<Rightarrow> (error + bool) \<times> world" where
  "createNewPane h command w =
     (let w1 = log_event (Spawn ''tmux'' (split_args command)) w
      in case spawn h ''tmux'' (split_args command) of
           SpawnThrows \<Rightarrow> (Inl SpawnException, w1)
         | SpawnError \<Rightarrow> (Inr False, w1)
         | Close code paneId \<Rightarrow>
             (Inr (code = Some 0),
              if code = Some 0 \<and> trim paneId \<noteq> [] then saveCanvasPaneId (trim paneId) w1
              else w1))"

definition interrupt_args :: "string \<Rightarrow> string list" where
  "interrupt_args paneId = [''send-keys'', ''-t'', paneId, ''C-c'']"

definition rerun_args :: "string \<Rightarrow> string \<Rightarrow> string list" where
  "rerun_args paneId command = [''send-keys'', ''-t'', paneId, ''clear && '' @ command, ''Enter'']"

text \<open>
  \<^verbatim>\<open>reuseExistingPane\<close>: interrupt, wait 150 ms after the interrupting process has
  closed (whatever its exit code), then send the new command.
  \<^item> When the interrupting \<^verbatim>\<open>spawn\<close> throws, the promise is rejected.
  \<^item> When the interrupting process cannot be started, its \<^verbatim>\<open>error\<close> handler
    resolves the promise with \<^verbatim>\<open>false\<close>; its \<^verbatim>\<open>close\<close> handler runs all the
    same, so the timer is set and the second \<^verbatim>\<open>send-keys\<close> is issued 150 ms later,
    after the promise has been settled: these two are \<open>late\<close> actions. What the second
    process answers then changes nothing for the caller, whose promise is settled. (A second
    call that throws would do so in the timer callback, 150 ms later; whether the caller's
    remaining steps are over by then is a matter of timing and is left open.)
  \<^item> When the second \<^verbatim>\<open>spawn\<close> throws in the ordinary course, it does so inside the
    timer callback: nothing catches it and the promise is never settled.
\<close>

definition reuseExistingPane ::
  "host \<Rightarrow> string \<Rightarrow> string \<Rightarrow> world \<Rightarrow> (error + bool) \<times> world" where
  "reuseExistingPane h paneId command w =
     (let w1 = log_event (Spawn ''tmux'' (interrupt_args paneId)) w
      in case spawn h ''tmux'' (interrupt_args paneId) of
           SpawnThrows \<Rightarrow> (Inl SpawnException, w1)
         | SpawnError \<Rightarrow>
             (Inr False,
              w1\<lparr>late := late w1 @ [Timeout 150, Spawn ''tmux'' (rerun_args paneId command)]\<rparr>)
         | Close kcode kout \<Rightarrow>
             (let w2 = log_event (Timeout 150) w1;
                  w3 = log_event (Spawn ''tmux'' (rerun_args paneId command)) w2
              in case spawn h ''tmux'' (rerun_args paneId command) of
                   SpawnThrows \<Rightarrow> (Inl UncaughtException, w3)
                 | SpawnError \<Rightarrow> (Inr False, w3)
                 | Close code out \<Rightarrow> (Inr (code = Some 0), w3)))"

text \<open>
  \<^verbatim>\<open>spawnTmux\<close>. \<^verbatim>\<open>if (existingPaneId)\<close> is a truthiness test: the empty
  string counts as no pane. An exception of an awaited call leaves the function at once.
\<close>

definition spawnTmux :: "host \<Rightarrow> string \<Rightarrow> world \<Rightarrow> (error + bool) \<times> world" where
  "spawnTmux h command w =
     (case getCanvasPaneId h w of
        (Inl e, w1) \<Rightarrow> (Inl e, w1)
      | (Inr existingPaneId, w1) \<Rightarrow>
          if truthy existingPaneId then
            (case reuseExistingPane h (the existingPaneId) command w1 of
               (Inl e, w2) \<Rightarrow> (Inl e, w2)
             | (Inr reused, w2) \<Rightarrow>
                 if reused then (Inr True, w2)
                 else createNewPane h command (Bun_write CANVAS_PANE_FILE [] w2))
          else createNewPane h command w1)"

section \<open>The GUI adapter\<close>

text \<open>
  The text placed between the double quotes of the \<^verbatim>\<open>keystroke\<close> line (line 92):
  \<^verbatim>\<open>command.replace(/"/g, '\\"').replace(/\\/g, "\\\\")\<close>. The first replacement
  string is a backslash and a double quote, the second is two backslashes.
\<close>

definition ghostty_escape :: "string \<Rightarrow> string" where
  "ghostty_escape command =
     replace_all_char (CHR 0x5C) [CHR 0x5C, CHR 0x5C]
       (replace_all_char (CHR 0x22) [CHR 0x5C, CHR 0x22] command)"

definition ghostty_script :: "string \<Rightarrow> string" where
  \<open>ghostty_script command =
     [CHR 0x0A] @
     ''      tell application "Ghostty"'' @ [CHR 0x0A] @
     ''        activate'' @ [CHR 0x0A] @
     ''      end tell'' @ [CHR 0x0A] @
     ''      delay 0.1'' @ [CHR 0x0A] @
     ''      tell application "System Events"'' @ [CHR 0x0A] @
     ''        tell process "Ghostty"'' @ [CHR 0x0A] @
     ''          keystroke "d" using {command down}'' @ [CHR 0x0A] @
     ''          delay 0.3'' @ [CHR 0x0A] @
     ''          keystroke "'' @ ghostty_escape command @ ''"'' @ [CHR 0x0A] @
     ''          delay 0.05'' @ [CHR 0x0A] @
     ''          key code 36'' @ [CHR 0x0A] @
     ''        end tell'' @ [CHR 0x0A] @
     ''      end tell'' @ [CHR 0x0A] @
     ''    ''\<close>

text \<open>
  \<^verbatim>\<open>spawnGhostty\<close>: the promise resolves with \<^verbatim>\<open>code === 0\<close> on
  \<^verbatim>\<open>close\<close> and with \<^verbatim>\<open>false\<close> on \<^verbatim>\<open>error\<close>. The call of
  \<^verbatim>\<open>spawn\<close> stands in the executor of the promise: when it throws, the promise is
  rejected.
\<close>

definition spawnGhostty :: "host \<Rightarrow> string \<Rightarrow> world \<Rightarrow> (error + bool) \<times> world" where
  "spawnGhostty h command w =
     (let w1 = log_event (Spawn ''osascript'' [''-e'', ghostty_script command]) w
      in case spawn h ''osascript'' [''-e'', ghostty_script command] of
           SpawnThrows \<Rightarrow> (Inl SpawnException, w1)
         | SpawnError \<Rightarrow> (Inr False, w1)
         | Close code out \<Rightarrow> (Inr (code = Some 0), w1))"

section \<open>The dispatcher\<close>

text \<open>
  \<^verbatim>\<open>interface SpawnResult { method: string; pid?: number }\<close>; the field
  \<^verbatim>\<open>method\<close> is \<open>method_used\<close> here.
\<close>

record SpawnResult =
  method_used :: string
  pid :: "int option"

record SpawnOptions =
  socketPath :: "string option"
  scenario :: "string option"

definition unsupported_message :: string where
  "unsupported_message =
     ''Canvas requires Ghostty (macOS) or tmux. Please run inside one of these environments.''"

definition config_file :: "string \<Rightarrow> string" where
  "config_file ident = ''/tmp/canvas-config-'' @ ident @ ''.json''"

text \<open>
  The command line of \<^verbatim>\<open>spawnCanvas\<close> (lines 46 to 63), without the write of the
  configuration file, which \<open>spawnCanvas\<close> below does at the place the source does.
\<close>

definition canvas_command ::
  "process_env \<Rightarrow> string \<Rightarrow> string \<Rightarrow> string option \<Rightarrow> SpawnOptions option \<Rightarrow> string" where
  \<open>canvas_command p kind ident configJson options =
     (let scriptDir = replace_first ''/src'' [] (meta_dir p);
          runScript = scriptDir @ ''/run-canvas.sh'';
          given = (case options of None \<Rightarrow> None | Some opts \<Rightarrow> socketPath opts);
          sock = (if truthy given then the given else ''/tmp/canvas-'' @ ident @ ''.sock'');
          c0 = runScript @ '' show '' @ kind @ '' --id '' @ ident;
          c1 = (if truthy configJson
                then c0 @ '' --config "$(cat '' @ config_file ident @ '')"'' else c0);
          c2 = c1 @ '' --socket '' @ sock;
          scen = (case options of None \<Rightarrow> None | Some opts \<Rightarrow> scenario opts)
      in if truthy scen then c2 @ '' --scenario '' @ the scen else c2)\<close>

text \<open>
  \<^verbatim>\<open>spawnCanvas\<close>. An exception of an awaited adapter is thrown again by the
  \<^verbatim>\<open>await\<close> and leaves the function: what follows is not run.
\<close>

definition spawnCanvas ::
  "process_env \<Rightarrow> host \<Rightarrow> string \<Rightarrow> string \<Rightarrow> string option \<Rightarrow> SpawnOptions option \<Rightarrow> world
     \<Rightarrow> (error + SpawnResult) \<times> world" where
  "spawnCanvas p h kind ident configJson options w =
     (let env = detectTerminal p;
          w0 = (if truthy configJson then Bun_write (config_file ident) (the configJson) w else w);
          command = canvas_command p kind ident configJson options;
          (ghostty, w1) =
            (if inGhostty env \<and> isMacOS env then spawnGhostty h command w0 else (Inr False, w0))
      in case ghostty of
           Inl e \<Rightarrow> (Inl e, w1)
         | Inr True \<Rightarrow> (Inr \<lparr>method_used = ''ghostty'', pid = None\<rparr>, w1)
         | Inr False \<Rightarrow>
             if inTmux env then
               (case spawnTmux h command w1 of
                  (Inl e, w2) \<Rightarrow> (Inl e, w2)
                | (Inr result, w2) \<Rightarrow>
                    if result then (Inr \<lparr>method_used = ''tmux'', pid = None\<rparr>, w2)
                    else (Inl (Error unsupported_message), w2))
             else (Inl (Error unsupported_message), w1))"

section \<open>Observing a run\<close>

text \<open>
  The actions a call has added to the trace, and the three kinds of action the statements
  below speak about: starting the GUI automation, any \<^verbatim>\<open>tmux\<close> command, and the
  \<^verbatim>\<open>send-keys\<close> commands of the reuse sequence.
\<close>

definition new_events :: "world \<Rightarrow> world \<Rightarrow> event list" where
  "new_events w w' = drop (length (trace w)) (trace w')"

definition is_gui_event :: "event \<Rightarrow> bool" where
  "is_gui_event e = (case e of Spawn prog args \<Rightarrow> prog = ''osascript'' | _ \<Rightarrow> False)"

definition is_mux_event :: "event \<Rightarrow> bool" where
  "is_mux_event e =
     (case e of Spawn prog args \<Rightarrow> prog = ''tmux'' | SpawnSync prog args \<Rightarrow> prog = ''tmux''
      | _ \<Rightarrow> False)"

definition is_reuse_event :: "event \<Rightarrow> bool" where
  "is_reuse_event e =
     (case e of Spawn prog args \<Rightarrow> prog = ''tmux'' \<and> take 1 args = [''send-keys''] | _ \<Rightarrow> False)"

text \<open>
  The escaping as the specification words it, for comparison with \<open>ghostty_escape\<close>:
  every double quote and every backslash of the command gets one backslash in front of it,
  and nothing else changes.
\<close>

definition spec_escape :: "string \<Rightarrow> string" where
  "spec_escape s =
     concat (map (\<lambda>x. if x = CHR 0x22 \<or> x = CHR 0x5C then [CHR 0x5C, x] else [x]) s)"

section \<open>Example environments\<close>

text \<open>
  Concrete inputs for the instances below: a process environment given by its three
  signals, an outside whose programs answer with fixed results (one for
  \<^verbatim>\<open>osascript\<close>, one for every \<^verbatim>\<open>tmux\<close> command started with
  \<^verbatim>\<open>spawn\<close>, one for the pane lookup), and a file system holding at most the
  registry file.
\<close>

definition example_env :: "string option \<Rightarrow> string option \<Rightarrow> string \<Rightarrow> process_env" where
  "example_env tmux term os =
     \<lparr>env_TMUX = tmux, env_TERM_PROGRAM = term, platform = os, meta_dir = ''/opt/canvas/src''\<rparr>"

definition example_host :: "proc_end \<Rightarrow> proc_end \<Rightarrow> sync_result \<Rightarrow> host" where
  "example_host gui mux look =
     \<lparr>spawn = (\<lambda>prog args. if prog = ''osascript'' then gui else mux),
      spawnSync = (\<lambda>prog args. look),
      text_fails = (\<lambda>path. False)\<rparr>"

definition example_world :: "file_state \<Rightarrow> world" where
  "example_world reg =
     \<lparr>fs = (\<lambda>path. if path = CANVAS_PANE_FILE then reg else Absent), trace = [], late = []\<rparr>"

section \<open>Basic facts\<close>

lemmas example_simps = example_env_def example_host_def example_world_def

lemmas eval_simps = trim_def is_js_space_def truthy_def lookup_args_def split_args_def
  CANVAS_PANE_FILE_def

lemma trace_log_event: "trace (log_event e w) = trace w @ [e]"
  and fs_log_event: "fs (log_event e w) = fs w"
  by (simp_all add: log_event_def)

lemma trace_Bun_write: "trace (Bun_write path c w) = trace w @ [Write path c]"
  and fs_Bun_write: "fs (Bun_write path c w) = (fs w)(path := Content c)"
  by (simp_all add: Bun_write_def)

lemma late_log_event: "late (log_event e w) = late w"
  and late_Bun_write: "late (Bun_write path c w) = late w"
  by (simp_all add: log_event_def Bun_write_def)

lemmas world_simps = trace_log_event fs_log_event trace_Bun_write fs_Bun_write
  late_log_event late_Bun_write

lemma new_events_self: "new_events w w = []"
  by (simp add: new_events_def)

lemma new_events_Bun_write: "new_events w (Bun_write path c w) = [Write path c]"
  by (simp add: new_events_def world_simps)

lemma config_file_not_registry: "config_file ident \<noteq> CANVAS_PANE_FILE"
  by (simp add: config_file_def CANVAS_PANE_FILE_def)

subsection \<open>Trimming\<close>

text \<open>A trimmed string starts with no white space, so trimming it again changes nothing.\<close>

lemma dropWhile_trim: "dropWhile is_js_space (trim s) = trim s"
proof -
  define u where "u = dropWhile is_js_space s"
  define v where "v = dropWhile is_js_space (rev u)"
  have t: "trim s = rev v" by (simp add: trim_def u_def v_def)
  have "rev v = [] \<or> \<not> is_js_space (hd (rev v))"
  proof (cases "v = []")
    case True
    then show ?thesis by simp
  next
    case False
    then obtain x where x: "x \<in> set (rev u)" "\<not> is_js_space x"
      unfolding v_def by (auto simp: dropWhile_eq_Nil_conv)
    then have "last v = last (rev u)" unfolding v_def by (rule dropWhile_last)
    moreover from x have "u \<noteq> []" by auto
    ultimately have "hd (rev v) = hd u" using False by (simp add: hd_rev last_rev)
    moreover have "\<not> is_js_space (hd u)"
      using \<open>u \<noteq> []\<close> unfolding u_def by (rule hd_dropWhile)
    ultimately show ?thesis by simp
  qed
  then show ?thesis unfolding t by (simp add: dropWhile_eq_self_iff)
qed

lemma trim_idem: "trim (trim s) = trim s"
proof -
  have "dropWhile is_js_space (rev (trim s)) = rev (trim s)"
    by (simp add: trim_def)
  then show ?thesis
    unfolding trim_def[of "trim s"] dropWhile_trim by simp
qed

subsection \<open>Environment detection\<close>

lemma summary_unsupported:
  "summary (detectTerminal p) = ''unsupported'' \<longleftrightarrow>
     \<not> (inGhostty (detectTerminal p) \<and> isMacOS (detectTerminal p)) \<and> \<not> inTmux (detectTerminal p)"
  by (simp add: detectTerminal_def Let_def)

subsection \<open>The registry read, case by case\<close>

lemma getCanvasPaneId_absent:
  "fs w CANVAS_PANE_FILE = Absent \<Longrightarrow> getCanvasPaneId h w = (Inr None, w)"
  by (simp add: getCanvasPaneId_def getCanvasPaneId_try_def)

lemma getCanvasPaneId_stale:
  "fs w CANVAS_PANE_FILE = Content c \<Longrightarrow> \<not> text_fails h CANVAS_PANE_FILE \<Longrightarrow>
   spawnSync h ''tmux'' (lookup_args (trim c)) = Returned status stdout \<Longrightarrow>
   \<not> (status = Some 0 \<and> map_option trim stdout = Some (trim c)) \<Longrightarrow>
   getCanvasPaneId h w =
     (Inr None,
      Bun_write CANVAS_PANE_FILE [] (log_event (SpawnSync ''tmux'' (lookup_args (trim c))) w))"
  by (simp add: getCanvasPaneId_def getCanvasPaneId_try_def Let_def)

lemma getCanvasPaneId_returns: "\<exists>r w'. getCanvasPaneId h w = (Inr r, w')"
  by (simp add: getCanvasPaneId_def split: prod.splits sum.splits)

lemma getCanvasPaneId_result:
  "fst (getCanvasPaneId h w) = Inr (Some p) \<longleftrightarrow>
     (\<exists>c out. fs w CANVAS_PANE_FILE = Content c \<and> p = trim c \<and> \<not> text_fails h CANVAS_PANE_FILE \<and>
        spawnSync h ''tmux'' (lookup_args p) = Returned (Some 0) (Some out) \<and> trim out = p)"
  by (auto simp add: getCanvasPaneId_def getCanvasPaneId_try_def Let_def
      split: file_state.splits sync_result.splits option.splits)

lemma getCanvasPaneId_trace:
  "\<exists>evs. trace (snd (getCanvasPaneId h w)) = trace w @ evs \<and> \<not> list_ex is_gui_event evs"
  by (auto simp add: getCanvasPaneId_def getCanvasPaneId_try_def Let_def world_simps is_gui_event_def
      split: file_state.splits sync_result.splits option.splits)

lemma getCanvasPaneId_no_entry_aux:
  assumes "fs w CANVAS_PANE_FILE = Absent \<or> (fs w CANVAS_PANE_FILE = Content c \<and> trim c = [])"
    and "getCanvasPaneId h w = (Inr r, w1)"
  shows "\<not> truthy r \<and> late w1 = late w \<and> (\<exists>evs. trace w1 = trace w @ evs \<and>
           \<not> list_ex is_reuse_event evs \<and> Spawn ''tmux'' (split_args cmd) \<notin> set evs)"
  using assms
  by (auto simp add: getCanvasPaneId_def getCanvasPaneId_try_def Let_def world_simps truthy_def
      is_reuse_event_def split: sync_result.splits option.splits if_splits)

lemma getCanvasPaneId_no_entry:
  assumes "fs w CANVAS_PANE_FILE = Absent \<or> (fs w CANVAS_PANE_FILE = Content c \<and> trim c = [])"
  shows "\<exists>r w1 evs. getCanvasPaneId h w = (Inr r, w1) \<and> \<not> truthy r \<and> late w1 = late w \<and>
           trace w1 = trace w @ evs \<and>
           \<not> list_ex is_reuse_event evs \<and> Spawn ''tmux'' (split_args cmd) \<notin> set evs"
proof -
  obtain r w1 where g: "getCanvasPaneId h w = (Inr r, w1)"
    using getCanvasPaneId_returns by blast
  from getCanvasPaneId_no_entry_aux[OF assms g, of cmd] g show ?thesis by blast
qed

subsection \<open>The multiplexer adapter\<close>

lemma createNewPane_trace:
  "\<exists>rest. trace (snd (createNewPane h cmd w)) = trace w @ Spawn ''tmux'' (split_args cmd) # rest \<and>
     (rest = [] \<or> (\<exists>i. rest = [Write CANVAS_PANE_FILE i]))"
  by (auto simp add: createNewPane_def Let_def saveCanvasPaneId_def world_simps split: proc_end.splits)

lemma createNewPane_late: "late (snd (createNewPane h cmd w)) = late w"
  by (auto simp add: createNewPane_def Let_def saveCanvasPaneId_def world_simps split: proc_end.splits)

lemma reuseExistingPane_trace:
  "\<exists>rest. trace (snd (reuseExistingPane h p cmd w)) =
            trace w @ Spawn ''tmux'' (interrupt_args p) # rest \<and>
     (rest = [] \<or> rest = [Timeout 150, Spawn ''tmux'' (rerun_args p cmd)])"
  by (auto simp add: reuseExistingPane_def Let_def world_simps split: proc_end.splits)

lemma spawnTmux_no_reference:
  "getCanvasPaneId h w = (Inr r, w1) \<Longrightarrow> \<not> truthy r \<Longrightarrow>
   spawnTmux h cmd w = createNewPane h cmd w1"
  by (simp add: spawnTmux_def)

lemma spawnTmux_reference:
  "getCanvasPaneId h w = (Inr (Some p), w1) \<Longrightarrow> p \<noteq> [] \<Longrightarrow>
   spawnTmux h cmd w =
     (case reuseExistingPane h p cmd w1 of
        (Inl e, w2) \<Rightarrow> (Inl e, w2)
      | (Inr reused, w2) \<Rightarrow>
          if reused then (Inr True, w2)
          else createNewPane h cmd (Bun_write CANVAS_PANE_FILE [] w2))"
  by (simp add: spawnTmux_def truthy_def)

text \<open>
  The reuse path: a reference the host confirms, and both \<^verbatim>\<open>send-keys\<close> commands
  go through (the second with exit code 0). The pane is reused, nothing is created and the
  registry file is not touched.
\<close>

lemma spawnTmux_reuses_valid_pane:
  assumes "fs w CANVAS_PANE_FILE = Content c" and "\<not> text_fails h CANVAS_PANE_FILE"
    and "spawnSync h ''tmux'' (lookup_args (trim c)) = Returned (Some 0) (Some out)"
    and "trim out = trim c" and "trim c \<noteq> []"
    and "spawn h ''tmux'' (interrupt_args (trim c)) = Close kcode kout"
    and "spawn h ''tmux'' (rerun_args (trim c) cmd) = Close (Some 0) rout"
  shows "fst (spawnTmux h cmd w) = Inr True \<and>
         fs (snd (spawnTmux h cmd w)) = fs w \<and>
         new_events w (snd (spawnTmux h cmd w)) =
           [SpawnSync ''tmux'' (lookup_args (trim c)), Spawn ''tmux'' (interrupt_args (trim c)),
            Timeout 150, Spawn ''tmux'' (rerun_args (trim c) cmd)]"
proof -
  have g: "getCanvasPaneId h w =
             (Inr (Some (trim c)), log_event (SpawnSync ''tmux'' (lookup_args (trim c))) w)"
    using assms(1-4) by (simp add: getCanvasPaneId_def getCanvasPaneId_try_def Let_def)
  show ?thesis
    unfolding spawnTmux_reference[OF g assms(5)] using assms(6,7)
    by (simp add: reuseExistingPane_def Let_def world_simps new_events_def)
qed

text \<open>
  The interrupting process cannot be started: the reuse fails, the registry file is cleared
  and a pane is created, and the second \<^verbatim>\<open>send-keys\<close> of the abandoned reuse is
  issued late, by the \<^verbatim>\<open>close\<close> handler that runs after the \<^verbatim>\<open>error\<close>.
\<close>

lemma spawnTmux_interrupt_error:
  assumes "fs w CANVAS_PANE_FILE = Content c" and "\<not> text_fails h CANVAS_PANE_FILE"
    and "spawnSync h ''tmux'' (lookup_args (trim c)) = Returned (Some 0) (Some out)"
    and "trim out = trim c" and "trim c \<noteq> []"
    and "spawn h ''tmux'' (interrupt_args (trim c)) = SpawnError"
  shows "late (snd (spawnTmux h cmd w)) =
           late w @ [Timeout 150, Spawn ''tmux'' (rerun_args (trim c) cmd)] \<and>
         (\<exists>rest. new_events w (snd (spawnTmux h cmd w)) =
           [SpawnSync ''tmux'' (lookup_args (trim c)), Spawn ''tmux'' (interrupt_args (trim c)),
            Write CANVAS_PANE_FILE [], Spawn ''tmux'' (split_args cmd)] @ rest)"
proof -
  have g: "getCanvasPaneId h w =
             (Inr (Some (trim c)), log_event (SpawnSync ''tmux'' (lookup_args (trim c))) w)"
    using assms(1-4) by (simp add: getCanvasPaneId_def getCanvasPaneId_try_def Let_def)
  let ?w2 = "Bun_write CANVAS_PANE_FILE []
     ((log_event (Spawn ''tmux'' (interrupt_args (trim c)))
        (log_event (SpawnSync ''tmux'' (lookup_args (trim c))) w))
      \<lparr>late := late w @ [Timeout 150, Spawn ''tmux'' (rerun_args (trim c) cmd)]\<rparr>)"
  have s: "spawnTmux h cmd w = createNewPane h cmd ?w2"
    unfolding spawnTmux_reference[OF g assms(5)] using assms(6)
    by (simp add: reuseExistingPane_def Let_def world_simps)
  from createNewPane_trace[of h cmd ?w2] obtain rest where
    "trace (snd (createNewPane h cmd ?w2)) = trace ?w2 @ Spawn ''tmux'' (split_args cmd) # rest"
    by blast
  then have "new_events w (snd (spawnTmux h cmd w)) =
           [SpawnSync ''tmux'' (lookup_args (trim c)), Spawn ''tmux'' (interrupt_args (trim c)),
            Write CANVAS_PANE_FILE [], Spawn ''tmux'' (split_args cmd)] @ rest"
    by (simp add: s new_events_def world_simps)
  moreover have "late (snd (spawnTmux h cmd w)) =
           late w @ [Timeout 150, Spawn ''tmux'' (rerun_args (trim c) cmd)]"
    by (simp add: s createNewPane_late world_simps)
  ultimately show ?thesis by blast
qed

text \<open>
  Whatever branch it takes and however it ends, the multiplexer adapter starts at least one
  \<^verbatim>\<open>tmux\<close> command and never the GUI automation.
\<close>

lemma spawnTmux_trace:
  "\<exists>evs. trace (snd (spawnTmux h cmd w)) = trace w @ evs \<and> list_ex is_mux_event evs \<and>
     \<not> list_ex is_gui_event evs"
proof -
  obtain r w1 where g: "getCanvasPaneId h w = (Inr r, w1)"
    using getCanvasPaneId_returns[of h w] by blast
  from getCanvasPaneId_trace[of h w] g obtain e1 where
    e1: "trace w1 = trace w @ e1" "\<not> list_ex is_gui_event e1" by auto
  show ?thesis
  proof (cases "truthy r")
    case False
    from createNewPane_trace[of h cmd w1] obtain rest where
      "trace (snd (createNewPane h cmd w1)) = trace w1 @ Spawn ''tmux'' (split_args cmd) # rest"
      "rest = [] \<or> (\<exists>i. rest = [Write CANVAS_PANE_FILE i])" by blast
    then show ?thesis using e1 spawnTmux_no_reference[OF g False, of cmd]
      by (auto simp: is_mux_event_def is_gui_event_def)
  next
    case True
    then obtain p where p: "r = Some p" "p \<noteq> []" by (auto simp: truthy_def split: option.splits)
    obtain a w2 where u: "reuseExistingPane h p cmd w1 = (a, w2)"
      by (cases "reuseExistingPane h p cmd w1")
    from reuseExistingPane_trace[of h p cmd w1] u obtain rest where
      r: "trace w2 = trace w1 @ Spawn ''tmux'' (interrupt_args p) # rest"
      "rest = [] \<or> rest = [Timeout 150, Spawn ''tmux'' (rerun_args p cmd)]" by auto
    from createNewPane_trace[of h cmd "Bun_write CANVAS_PANE_FILE [] w2"] obtain rest' where
      c: "trace (snd (createNewPane h cmd (Bun_write CANVAS_PANE_FILE [] w2))) =
            trace (Bun_write CANVAS_PANE_FILE [] w2) @ Spawn ''tmux'' (split_args cmd) # rest'"
      "rest' = [] \<or> (\<exists>i. rest' = [Write CANVAS_PANE_FILE i])" by blast
    show ?thesis using e1 r c u spawnTmux_reference[OF g[unfolded p] p(2), of cmd]
      by (auto simp: is_mux_event_def is_gui_event_def world_simps split: sum.splits)
  qed
qed

subsection \<open>The dispatcher\<close>

lemma spawnGhostty_eq:
  "spawnGhostty h cmd w =
     (case spawn h ''osascript'' [''-e'', ghostty_script cmd] of
        SpawnThrows \<Rightarrow> Inl SpawnException
      | SpawnError \<Rightarrow> Inr False
      | Close code out \<Rightarrow> Inr (code = Some 0),
      log_event (Spawn ''osascript'' [''-e'', ghostty_script cmd]) w)"
  by (simp add: spawnGhostty_def Let_def split: proc_end.splits)

lemma spawnCanvas_cases:
  "spawnCanvas p h kind ident configJson options w =
    (let w0 = (if truthy configJson then Bun_write (config_file ident) (the configJson) w else w);
         cmd = canvas_command p kind ident configJson options;
         gui = (inGhostty (detectTerminal p) \<and> isMacOS (detectTerminal p));
         w1 = (if gui then log_event (Spawn ''osascript'' [''-e'', ghostty_script cmd]) w0 else w0)
     in if gui \<and> spawn h ''osascript'' [''-e'', ghostty_script cmd] = SpawnThrows
        then (Inl SpawnException, w1)
        else if gui \<and> (\<exists>out. spawn h ''osascript'' [''-e'', ghostty_script cmd] = Close (Some 0) out)
        then (Inr \<lparr>method_used = ''ghostty'', pid = None\<rparr>, w1)
        else if inTmux (detectTerminal p) then
          (case fst (spawnTmux h cmd w1) of
             Inl e \<Rightarrow> (Inl e, snd (spawnTmux h cmd w1))
           | Inr b \<Rightarrow>
               if b then (Inr \<lparr>method_used = ''tmux'', pid = None\<rparr>, snd (spawnTmux h cmd w1))
               else (Inl (Error unsupported_message), snd (spawnTmux h cmd w1)))
        else (Inl (Error unsupported_message), w1))"
proof -
  define cmd where "cmd = canvas_command p kind ident configJson options"
  define w0 where
    "w0 = (if truthy configJson then Bun_write (config_file ident) (the configJson) w else w)"
  define G where "G = Spawn ''osascript'' [''-e'', ghostty_script cmd]"
  show ?thesis
    unfolding spawnCanvas_def Let_def spawnGhostty_eq cmd_def[symmetric] w0_def[symmetric]
      G_def[symmetric]
    by (cases "spawn h ''osascript'' [''-e'', ghostty_script cmd]")
       (auto split: prod.splits sum.splits bool.splits)
qed

text \<open>A call only adds to the trace.\<close>

lemma spawnCanvas_trace_extends:
  "\<exists>evs. trace (snd (spawnCanvas p h kind ident configJson options w)) = trace w @ evs"
proof -
  define w0 where
    "w0 = (if truthy configJson then Bun_write (config_file ident) (the configJson) w else w)"
  define w1 where
    "w1 = (if inGhostty (detectTerminal p) \<and> isMacOS (detectTerminal p)
           then log_event (Spawn ''osascript''
                  [''-e'', ghostty_script (canvas_command p kind ident configJson options)]) w0
           else w0)"
  have 1: "\<exists>evs. trace w1 = trace w @ evs"
    by (simp add: w1_def w0_def world_simps)
  from spawnTmux_trace[of h "canvas_command p kind ident configJson options" w1] 1
  have 2: "\<exists>evs. trace (snd (spawnTmux h (canvas_command p kind ident configJson options) w1)) =
             trace w @ evs"
    by auto
  show ?thesis
    unfolding spawnCanvas_cases Let_def w0_def[symmetric] w1_def[symmetric]
    using 1 2 by (simp split: if_splits sum.splits)
qed

subsection \<open>The two escapings\<close>

lemma ghostty_escape_by_char:
  "ghostty_escape s =
     concat (map (\<lambda>x. if x = CHR 0x22 then [CHR 0x5C, CHR 0x5C, CHR 0x22]
                        else if x = CHR 0x5C then [CHR 0x5C, CHR 0x5C] else [x]) s)"
  by (induction s) (simp_all add: ghostty_escape_def replace_all_char_def)

lemma ghostty_escape_length:
  "length (ghostty_escape s) = length (spec_escape s) + length (filter (\<lambda>x. x = CHR 0x22) s)"
  unfolding ghostty_escape_by_char by (induction s) (simp_all add: spec_escape_def)

text \<open>The source's escaping is the specified one exactly on commands without a double quote.\<close>

lemma ghostty_escape_eq_iff:
  "ghostty_escape s = spec_escape s \<longleftrightarrow> CHR 0x22 \<notin> set s"
proof
  assume "ghostty_escape s = spec_escape s"
  then have "length (filter (\<lambda>x. x = CHR 0x22) s) = 0"
    using ghostty_escape_length[of s] by simp
  then show "CHR 0x22 \<notin> set s" by (auto simp add: filter_empty_conv)
next
  assume "CHR 0x22 \<notin> set s"
  then show "ghostty_escape s = spec_escape s"
    unfolding ghostty_escape_by_char spec_escape_def
    by (induction s) auto
qed

text \<open>Every command built with a configuration contains a double quote.\<close>

lemma canvas_command_has_quote:
  "truthy configJson \<Longrightarrow> CHR 0x22 \<in> set (canvas_command p kind ident configJson options)"
  by (simp add: canvas_command_def Let_def)

section \<open>Environment detection and dispatch order\<close>

text \<open>
  C9. Detection is a function of the three signals and classifies by first match: the
  GUI host on its supported system gives \<open>ghostty (macOS)\<close>; otherwise a multiplexer
  marker gives \<open>tmux\<close>; otherwise \<open>unsupported\<close>. The three classes are exclusive
  and cover every combination of the signals. The marker counts as present when
  \<^verbatim>\<open>TMUX\<close> is set to a non-empty string.
\<close>

theorem detectTerminal_first_match:
  "inTmux (detectTerminal p) = truthy (env_TMUX p) \<and>
   inGhostty (detectTerminal p) = (env_TERM_PROGRAM p = Some ''ghostty'') \<and>
   isMacOS (detectTerminal p) = (platform p = ''darwin'') \<and>
   (summary (detectTerminal p) = ''ghostty (macOS)'' \<longleftrightarrow>
      inGhostty (detectTerminal p) \<and> isMacOS (detectTerminal p)) \<and>
   (summary (detectTerminal p) = ''tmux'' \<longleftrightarrow>
      \<not> (inGhostty (detectTerminal p) \<and> isMacOS (detectTerminal p)) \<and> inTmux (detectTerminal p)) \<and>
   (summary (detectTerminal p) = ''unsupported'' \<longleftrightarrow>
      \<not> (inGhostty (detectTerminal p) \<and> isMacOS (detectTerminal p)) \<and> \<not> inTmux (detectTerminal p))"
  by (simp add: detectTerminal_def Let_def)

theorem detectTerminal_first_match_witness:
  "summary (detectTerminal
      (example_env (Some ''/tmp/tmux-501/default,311,0'') (Some ''ghostty'') ''darwin''))
     = ''ghostty (macOS)'' \<and>
   summary (detectTerminal
      (example_env (Some ''/tmp/tmux-501/default,311,0'') (Some ''ghostty'') ''linux''))
     = ''tmux'' \<and>
   summary (detectTerminal (example_env None (Some ''ghostty'') ''linux'')) = ''unsupported''"
  using
    detectTerminal_first_match
      [of "example_env (Some ''/tmp/tmux-501/default,311,0'') (Some ''ghostty'') ''darwin''"]
    detectTerminal_first_match
      [of "example_env (Some ''/tmp/tmux-501/default,311,0'') (Some ''ghostty'') ''linux''"]
    detectTerminal_first_match [of "example_env None (Some ''ghostty'') ''linux''"]
  by (simp add: example_env_def truthy_def)

text \<open>
  C5. When detection finds no supported host, \<open>spawnCanvas\<close> ends in the exception
  carrying the unsupported-environment message, and it has started neither the GUI
  automation nor any multiplexer command.
\<close>

theorem spawnCanvas_unsupported:
  assumes "summary (detectTerminal p) = ''unsupported''"
  shows "fst (spawnCanvas p h kind ident configJson options w) = Inl (Error unsupported_message) \<and>
         \<not> list_ex is_gui_event
             (new_events w (snd (spawnCanvas p h kind ident configJson options w))) \<and>
         \<not> list_ex is_mux_event
             (new_events w (snd (spawnCanvas p h kind ident configJson options w)))"
  using assms unfolding summary_unsupported
  by (auto simp add: spawnCanvas_cases Let_def new_events_self new_events_Bun_write
      is_gui_event_def is_mux_event_def)

theorem spawnCanvas_unsupported_witness:
  "summary (detectTerminal (example_env None None ''linux'')) = ''unsupported'' \<and>
   fst (spawnCanvas (example_env None None ''linux'')
          (example_host (Close (Some 0) []) (Close (Some 0) []) (Returned (Some 0) (Some [])))
          ''calendar'' ''c1'' (Some ''{}'') None (example_world Absent))
     = Inl (Error unsupported_message)"
proof -
  have u: "summary (detectTerminal (example_env None None ''linux'')) = ''unsupported''"
    by (simp add: detectTerminal_def example_env_def truthy_def)
  from spawnCanvas_unsupported[OF u] u show ?thesis by simp
qed

text \<open>
  C10. Whenever \<open>spawnCanvas\<close> returns a result, the result has no \<open>pid\<close>.
\<close>

theorem spawnCanvas_pid_absent:
  "fst (spawnCanvas p h kind ident configJson options w) = Inr r \<Longrightarrow> pid r = None"
  by (auto simp add: spawnCanvas_cases Let_def split: if_splits sum.splits)

theorem spawnCanvas_pid_absent_witness:
  "fst (spawnCanvas (example_env (Some ''/tmp/tmux-501/default,311,0'') None ''linux'')
          (example_host SpawnError (Close (Some 0) (''%9'' @ [CHR 0x0A])) (Returned (Some 1) None))
          ''calendar'' ''c1'' None None (example_world Absent))
     = Inr \<lparr>method_used = ''tmux'', pid = None\<rparr> \<and>
   pid \<lparr>method_used = ''tmux'', pid = None\<rparr> = None"
proof -
  have r: "fst (spawnCanvas (example_env (Some ''/tmp/tmux-501/default,311,0'') None ''linux'')
          (example_host SpawnError (Close (Some 0) (''%9'' @ [CHR 0x0A])) (Returned (Some 1) None))
          ''calendar'' ''c1'' None None (example_world Absent))
     = Inr \<lparr>method_used = ''tmux'', pid = None\<rparr>"
    by (simp add: spawnCanvas_def detectTerminal_def spawnTmux_def getCanvasPaneId_def
        getCanvasPaneId_try_def createNewPane_def saveCanvasPaneId_def Bun_write_def log_event_def
        Let_def example_simps eval_simps)
  from spawnCanvas_pid_absent[OF r] r show ?thesis by simp
qed

text \<open>
  How the two adapters follow one another. With both the GUI host (on its supported system)
  and the multiplexer detected, the GUI automation is started first: no multiplexer command
  precedes it and it is started once. A multiplexer command is issued exactly when the
  multiplexer is detected and the GUI attempt was not made or resolved with
  \<^verbatim>\<open>false\<close> (the process could not be started, or it closed with a code other than
  0). When the GUI attempt succeeds, the result names \<open>ghostty\<close> and no multiplexer
  command has been issued. When the call that starts the GUI automation throws, the
  exception leaves \<open>spawnCanvas\<close> and no multiplexer command is issued.
\<close>

lemma dispatch_order:
  fixes p h kind ident configJson options w
  defines "cmd \<equiv> canvas_command p kind ident configJson options"
    and "R \<equiv> spawnCanvas p h kind ident configJson options w"
    and "gui \<equiv> inGhostty (detectTerminal p) \<and> isMacOS (detectTerminal p)"
  defines "g \<equiv> spawn h ''osascript'' [''-e'', ghostty_script cmd]"
  shows "(gui \<and> inTmux (detectTerminal p) \<longrightarrow>
           (\<exists>pre post. new_events w (snd R) =
                pre @ Spawn ''osascript'' [''-e'', ghostty_script cmd] # post \<and>
              \<not> list_ex is_mux_event pre \<and> \<not> list_ex is_gui_event pre \<and>
              \<not> list_ex is_gui_event post)) \<and>
         (list_ex is_mux_event (new_events w (snd R)) \<longleftrightarrow>
            inTmux (detectTerminal p) \<and>
            (\<not> gui \<or> g = SpawnError \<or> (\<exists>code out. g = Close code out \<and> code \<noteq> Some 0))) \<and>
         (gui \<and> (\<exists>out. g = Close (Some 0) out) \<longrightarrow>
            fst R = Inr \<lparr>method_used = ''ghostty'', pid = None\<rparr> \<and>
            \<not> list_ex is_mux_event (new_events w (snd R))) \<and>
         (gui \<and> g = SpawnThrows \<longrightarrow>
            fst R = Inl SpawnException \<and> \<not> list_ex is_mux_event (new_events w (snd R)))"
proof -
  define w0 where
    "w0 = (if truthy configJson then Bun_write (config_file ident) (the configJson) w else w)"
  define G where "G = Spawn ''osascript'' [''-e'', ghostty_script cmd]"
  define w1 where "w1 = (if gui then log_event G w0 else w0)"
  obtain e0 where e0: "trace w0 = trace w @ e0" "\<not> list_ex is_mux_event e0"
    "\<not> list_ex is_gui_event e0"
    by (cases "truthy configJson") (auto simp: w0_def world_simps is_mux_event_def is_gui_event_def)
  obtain evs where t: "trace (snd (spawnTmux h cmd w1)) = trace w1 @ evs"
    "list_ex is_mux_event evs" "\<not> list_ex is_gui_event evs"
    using spawnTmux_trace by blast
  have R: "R = (if gui \<and> g = SpawnThrows then (Inl SpawnException, w1)
        else if gui \<and> (\<exists>out. g = Close (Some 0) out)
        then (Inr \<lparr>method_used = ''ghostty'', pid = None\<rparr>, w1)
        else if inTmux (detectTerminal p) then
          (case fst (spawnTmux h cmd w1) of
             Inl e \<Rightarrow> (Inl e, snd (spawnTmux h cmd w1))
           | Inr b \<Rightarrow>
               if b then (Inr \<lparr>method_used = ''tmux'', pid = None\<rparr>, snd (spawnTmux h cmd w1))
               else (Inl (Error unsupported_message), snd (spawnTmux h cmd w1)))
        else (Inl (Error unsupported_message), w1))"
    unfolding R_def spawnCanvas_cases Let_def
    by (simp only: cmd_def[symmetric] gui_def[symmetric] g_def[symmetric] w0_def[symmetric]
        G_def[symmetric] w1_def[symmetric])
  have G: "is_gui_event G" "\<not> is_mux_event G"
    by (simp_all add: G_def is_gui_event_def is_mux_event_def)
  have tw1: "trace w1 = trace w @ e0 @ (if gui then [G] else [])"
    by (simp add: w1_def e0 world_simps)
  have sndR: "snd R = w1 \<or> snd R = snd (spawnTmux h cmd w1)"
    by (auto simp add: R split: sum.splits)
  have c1: "gui \<and> inTmux (detectTerminal p) \<longrightarrow>
           (\<exists>pre post. new_events w (snd R) = pre @ G # post \<and>
              \<not> list_ex is_mux_event pre \<and> \<not> list_ex is_gui_event pre \<and>
              \<not> list_ex is_gui_event post)"
  proof
    assume a: "gui \<and> inTmux (detectTerminal p)"
    from sndR show "\<exists>pre post. new_events w (snd R) = pre @ G # post \<and>
              \<not> list_ex is_mux_event pre \<and> \<not> list_ex is_gui_event pre \<and>
              \<not> list_ex is_gui_event post"
    proof
      assume "snd R = w1"
      with a have "new_events w (snd R) = e0 @ G # []"
        by (simp add: new_events_def tw1)
      with e0 show ?thesis by (intro exI[of _ e0] exI[of _ "[]"]) simp
    next
      assume "snd R = snd (spawnTmux h cmd w1)"
      with a have "new_events w (snd R) = e0 @ G # evs"
        by (simp add: new_events_def t tw1)
      with e0 t show ?thesis by (intro exI[of _ e0] exI[of _ evs]) simp
    qed
  qed
  have gcases: "g = SpawnThrows \<or> g = SpawnError \<or> (\<exists>out. g = Close (Some 0) out) \<or>
                (\<exists>code out. g = Close code out \<and> code \<noteq> Some 0)"
    by (cases g) auto
  have c2: "list_ex is_mux_event (new_events w (snd R)) \<longleftrightarrow>
            inTmux (detectTerminal p) \<and>
            (\<not> gui \<or> g = SpawnError \<or> (\<exists>code out. g = Close code out \<and> code \<noteq> Some 0))"
    using e0 t G gcases
    by (auto simp add: R new_events_def tw1 list_ex_iff split: sum.splits)
  have c3: "gui \<and> (\<exists>out. g = Close (Some 0) out) \<longrightarrow>
            fst R = Inr \<lparr>method_used = ''ghostty'', pid = None\<rparr> \<and>
            \<not> list_ex is_mux_event (new_events w (snd R))"
    using e0 G by (auto simp add: R new_events_def tw1 list_ex_iff)
  have c4: "gui \<and> g = SpawnThrows \<longrightarrow>
            fst R = Inl SpawnException \<and> \<not> list_ex is_mux_event (new_events w (snd R))"
    using e0 G by (auto simp add: R new_events_def tw1 list_ex_iff)
  from c1 c2 c3 c4 show ?thesis unfolding G_def by blast
qed

text \<open>
  C3 does not hold of the code when the GUI attempt fails by an exception. The command line
  is part of the script handed to \<^verbatim>\<open>osascript\<close>; with a NUL character in it (here in
  \<open>kind\<close>) the call of \<^verbatim>\<open>spawn\<close> throws. Both hosts are detected, the GUI attempt
  has failed, and yet no multiplexer command is issued: the only action is the attempt to
  start \<^verbatim>\<open>osascript\<close>, and \<open>spawnCanvas\<close> ends in that exception instead of
  falling back.
\<close>

theorem gui_spawn_throws_no_fallback:
  "inGhostty (detectTerminal
      (example_env (Some ''/tmp/tmux-501/default,311,0'') (Some ''ghostty'') ''darwin'')) \<and>
   isMacOS (detectTerminal
      (example_env (Some ''/tmp/tmux-501/default,311,0'') (Some ''ghostty'') ''darwin'')) \<and>
   inTmux (detectTerminal
      (example_env (Some ''/tmp/tmux-501/default,311,0'') (Some ''ghostty'') ''darwin'')) \<and>
   fst (spawnCanvas
          (example_env (Some ''/tmp/tmux-501/default,311,0'') (Some ''ghostty'') ''darwin'')
          (example_host SpawnThrows (Close (Some 0) ''%9'') Throws)
          [CHR ''a'', CHR 0x00] ''c1'' None None (example_world Absent))
     = Inl SpawnException \<and>
   new_events (example_world Absent)
     (snd (spawnCanvas
          (example_env (Some ''/tmp/tmux-501/default,311,0'') (Some ''ghostty'') ''darwin'')
          (example_host SpawnThrows (Close (Some 0) ''%9'') Throws)
          [CHR ''a'', CHR 0x00] ''c1'' None None (example_world Absent)))
     = [Spawn ''osascript''
          [''-e'',
           ghostty_script
             (canvas_command
                (example_env (Some ''/tmp/tmux-501/default,311,0'') (Some ''ghostty'') ''darwin'')
                [CHR ''a'', CHR 0x00] ''c1'' None None)]] \<and>
   CHR 0x00 \<in> set (ghostty_script
             (canvas_command
                (example_env (Some ''/tmp/tmux-501/default,311,0'') (Some ''ghostty'') ''darwin'')
                [CHR ''a'', CHR 0x00] ''c1'' None None))"
  by (simp add: spawnCanvas_def detectTerminal_def spawnGhostty_def log_event_def new_events_def
      Let_def example_simps truthy_def ghostty_script_def canvas_command_def ghostty_escape_def
      replace_all_char_def)

section \<open>The pane registry\<close>

text \<open>
  C2. The registry read never ends in an exception. It returns a pane id exactly when
  the registry file exists and can be read, the lookup for its trimmed content exits with
  status 0, and the trimmed output of the lookup is that same id; the id returned is the
  trimmed content. In particular a file that cannot be read and a lookup that throws both
  give no reference.
\<close>

theorem getCanvasPaneId_valid_iff:
  "(\<forall>e. fst (getCanvasPaneId h w) \<noteq> Inl e) \<and>
   (\<forall>p. fst (getCanvasPaneId h w) = Inr (Some p) \<longleftrightarrow>
     (\<exists>c out. fs w CANVAS_PANE_FILE = Content c \<and> p = trim c \<and> \<not> text_fails h CANVAS_PANE_FILE \<and>
        spawnSync h ''tmux'' (lookup_args p) = Returned (Some 0) (Some out) \<and> trim out = p)) \<and>
   (text_fails h CANVAS_PANE_FILE \<longrightarrow> fst (getCanvasPaneId h w) = Inr None) \<and>
   (\<forall>c. fs w CANVAS_PANE_FILE = Content c \<and>
        spawnSync h ''tmux'' (lookup_args (trim c)) = Throws \<longrightarrow>
        fst (getCanvasPaneId h w) = Inr None)"
  by (auto simp add: getCanvasPaneId_def getCanvasPaneId_try_def Let_def
      split: file_state.splits sync_result.splits option.splits)

theorem getCanvasPaneId_valid_iff_witness:
  "fst (getCanvasPaneId
          (example_host SpawnError SpawnError (Returned (Some 0) (Some (''%5'' @ [CHR 0x0A]))))
          (example_world (Content (''%5'' @ [CHR 0x0A])))) = Inr (Some ''%5'') \<and>
   fst (getCanvasPaneId
          (example_host SpawnError SpawnError (Returned (Some 0) (Some (''%6'' @ [CHR 0x0A]))))
          (example_world (Content (''%5'' @ [CHR 0x0A])))) \<noteq> Inr (Some ''%5'') \<and>
   fst (getCanvasPaneId (example_host SpawnError SpawnError Throws)
          (example_world (Content (''%5'' @ [CHR 0x0A])))) = Inr None"
  using
    getCanvasPaneId_valid_iff
      [of "example_host SpawnError SpawnError (Returned (Some 0) (Some (''%5'' @ [CHR 0x0A])))"
        "example_world (Content (''%5'' @ [CHR 0x0A]))"]
    getCanvasPaneId_valid_iff
      [of "example_host SpawnError SpawnError (Returned (Some 0) (Some (''%6'' @ [CHR 0x0A])))"
        "example_world (Content (''%5'' @ [CHR 0x0A]))"]
    getCanvasPaneId_valid_iff
      [of "example_host SpawnError SpawnError Throws"
        "example_world (Content (''%5'' @ [CHR 0x0A]))"]
  by (simp add: example_simps eval_simps)

text \<open>
  C6, as the code has it. With the registry file absent, the read reports no reference,
  issues no command and leaves the world as it was. With a file whose content is empty or
  blank, the result is still never a usable reference (it is \<open>None\<close> or the empty
  string, which the dispatcher treats alike), but when the file can be read the lookup is
  issued, for the empty target.
\<close>

theorem getCanvasPaneId_absent_or_blank:
  "(fs w CANVAS_PANE_FILE = Absent \<longrightarrow> getCanvasPaneId h w = (Inr None, w)) \<and>
   (fs w CANVAS_PANE_FILE = Content c \<and> trim c = [] \<longrightarrow>
      (\<exists>r. fst (getCanvasPaneId h w) = Inr r \<and> \<not> truthy r) \<and>
      (\<not> text_fails h CANVAS_PANE_FILE \<longrightarrow>
         (\<exists>rest. new_events w (snd (getCanvasPaneId h w)) =
                    SpawnSync ''tmux'' (lookup_args []) # rest)))"
proof (intro conjI impI)
  assume "fs w CANVAS_PANE_FILE = Absent"
  then show "getCanvasPaneId h w = (Inr None, w)" by (rule getCanvasPaneId_absent)
next
  assume a: "fs w CANVAS_PANE_FILE = Content c \<and> trim c = []"
  then have "fs w CANVAS_PANE_FILE = Absent \<or> (fs w CANVAS_PANE_FILE = Content c \<and> trim c = [])"
    by simp
  from getCanvasPaneId_no_entry[OF this, of h "[]"]
  show "\<exists>r. fst (getCanvasPaneId h w) = Inr r \<and> \<not> truthy r" by auto
next
  assume a: "fs w CANVAS_PANE_FILE = Content c \<and> trim c = []"
    and "\<not> text_fails h CANVAS_PANE_FILE"
  then show "\<exists>rest. new_events w (snd (getCanvasPaneId h w)) =
                      SpawnSync ''tmux'' (lookup_args []) # rest"
    by (auto simp add: getCanvasPaneId_def getCanvasPaneId_try_def Let_def world_simps new_events_def
        split: sync_result.splits)
qed

theorem getCanvasPaneId_absent_or_blank_witness:
  "getCanvasPaneId (example_host SpawnError SpawnError Throws) (example_world Absent) =
     (Inr None, example_world Absent) \<and>
   new_events (example_world (Content []))
     (snd (getCanvasPaneId (example_host SpawnError SpawnError Throws)
             (example_world (Content [])))) =
     [SpawnSync ''tmux'' (lookup_args [])]"
proof -
  have a: "fs (example_world Absent) CANVAS_PANE_FILE = Absent"
    by (simp add: example_world_def)
  have b: "fs (example_world (Content [])) CANVAS_PANE_FILE = Content [] \<and> trim [] = []"
    by (simp add: example_world_def trim_def)
  have c: "\<not> text_fails (example_host SpawnError SpawnError Throws) CANVAS_PANE_FILE"
    by (simp add: example_host_def)
  from getCanvasPaneId_absent_or_blank
         [of "example_world Absent" "example_host SpawnError SpawnError Throws" "[]"] a
  have 1: "getCanvasPaneId (example_host SpawnError SpawnError Throws) (example_world Absent) =
     (Inr None, example_world Absent)" by simp
  from getCanvasPaneId_absent_or_blank
         [of "example_world (Content [])" "example_host SpawnError SpawnError Throws" "[]"] b c
  obtain rest where "new_events (example_world (Content []))
     (snd (getCanvasPaneId (example_host SpawnError SpawnError Throws)
             (example_world (Content [])))) =
     SpawnSync ''tmux'' (lookup_args []) # rest" by blast
  moreover have "length (new_events (example_world (Content []))
     (snd (getCanvasPaneId (example_host SpawnError SpawnError Throws)
             (example_world (Content []))))) = 1"
    by (simp add: new_events_def getCanvasPaneId_def getCanvasPaneId_try_def log_event_def Let_def
        example_simps eval_simps)
  ultimately show ?thesis using 1 by simp
qed

text \<open>
  The registry file holds empty content, as it does after every clearing, and the read
  issues the lookup all the same: here the host answers with the id of the current pane,
  and the read then clears the file once more.
\<close>

theorem empty_registry_counterexample:
  "fs (example_world (Content [])) CANVAS_PANE_FILE = Content [] \<and>
   trace (snd (getCanvasPaneId
                 (example_host SpawnError SpawnError
                    (Returned (Some 0) (Some (''%0'' @ [CHR 0x0A]))))
                 (example_world (Content [])))) =
     [SpawnSync ''tmux'' [''display-message'', ''-t'', [], ''-p'', ''#{pane_id}''],
      Write CANVAS_PANE_FILE []]"
  by (simp add: getCanvasPaneId_def getCanvasPaneId_try_def saveCanvasPaneId_def Bun_write_def
      log_event_def Let_def example_simps eval_simps)

text \<open>
  C8, as the code has it. Saving \<open>x\<close> leaves exactly \<open>x\<close> in the registry file. The
  read that follows trims what it has read and validates it. When the file can be read and
  the lookup for the trimmed \<open>x\<close> exits with status 0 and trimmed output equal to the
  trimmed \<open>x\<close>, the read yields the trimmed \<open>x\<close>; in every other case it yields no
  reference. So the read yields \<open>x\<close> itself exactly when \<open>x\<close> has no white space
  around it, the file can be read and the host confirms \<open>x\<close>.
\<close>

theorem save_then_read:
  "fs (saveCanvasPaneId x w) CANVAS_PANE_FILE = Content x \<and>
   fst (getCanvasPaneId h (saveCanvasPaneId x w)) =
     (if \<not> text_fails h CANVAS_PANE_FILE \<and>
         (\<exists>out. spawnSync h ''tmux'' (lookup_args (trim x)) = Returned (Some 0) (Some out) \<and>
                trim out = trim x)
      then Inr (Some (trim x)) else Inr None) \<and>
   (fst (getCanvasPaneId h (saveCanvasPaneId x w)) = Inr (Some x) \<longleftrightarrow>
      x = trim x \<and> \<not> text_fails h CANVAS_PANE_FILE \<and>
      (\<exists>out. spawnSync h ''tmux'' (lookup_args x) = Returned (Some 0) (Some out) \<and> trim out = x))"
proof -
  have f: "fs (saveCanvasPaneId x w) CANVAS_PANE_FILE = Content x"
    by (simp add: saveCanvasPaneId_def world_simps)
  have r: "fst (getCanvasPaneId h (saveCanvasPaneId x w)) =
     (if \<not> text_fails h CANVAS_PANE_FILE \<and>
         (\<exists>out. spawnSync h ''tmux'' (lookup_args (trim x)) = Returned (Some 0) (Some out) \<and>
                trim out = trim x)
      then Inr (Some (trim x)) else Inr None)"
    using f
    by (auto simp add: getCanvasPaneId_def getCanvasPaneId_try_def Let_def
        split: sync_result.splits option.splits)
  have "fst (getCanvasPaneId h (saveCanvasPaneId x w)) = Inr (Some x) \<longleftrightarrow>
      x = trim x \<and> \<not> text_fails h CANVAS_PANE_FILE \<and>
      (\<exists>out. spawnSync h ''tmux'' (lookup_args x) = Returned (Some 0) (Some out) \<and> trim out = x)"
  proof (cases "x = trim x")
    case True
    then have "lookup_args (trim x) = lookup_args x" "trim x = x" by simp_all
    then show ?thesis unfolding r using True by auto
  next
    case False
    then show ?thesis unfolding r by auto
  qed
  with f r show ?thesis by simp
qed

theorem save_then_read_witness:
  "fst (getCanvasPaneId
          (example_host SpawnError SpawnError (Returned (Some 0) (Some (''%5'' @ [CHR 0x0A]))))
          (saveCanvasPaneId ''%5'' (example_world Absent))) = Inr (Some ''%5'')"
  using save_then_read[of "''%5''" "example_world Absent"
      "example_host SpawnError SpawnError (Returned (Some 0) (Some (''%5'' @ [CHR 0x0A])))"]
  by (simp add: example_simps eval_simps)

text \<open>
  Two ways in which the read after a save does not give back what was saved. A pane id is
  saved, the pane is closed, and the host no longer finds it: the read yields no reference.
  And an identifier saved with a space in front comes back without it, when the host
  confirms the trimmed identifier.
\<close>

theorem save_then_read_counterexample:
  "fst (getCanvasPaneId (example_host SpawnError SpawnError (Returned (Some 1) (Some [])))
          (saveCanvasPaneId ''%5'' (example_world Absent))) = Inr None \<and>
   fst (getCanvasPaneId
          (example_host SpawnError SpawnError (Returned (Some 0) (Some (''%5'' @ [CHR 0x0A]))))
          (saveCanvasPaneId '' %5'' (example_world Absent))) = Inr (Some ''%5'') \<and>
   ''%5'' \<noteq> '' %5''"
  by (simp add: getCanvasPaneId_def getCanvasPaneId_try_def saveCanvasPaneId_def Bun_write_def
      log_event_def Let_def example_simps eval_simps)

section \<open>Multiplexer dispatch\<close>

text \<open>
  C4. In the multiplexer environment, with the registry file absent or holding only empty
  or blank content, the dispatch issues the \<^verbatim>\<open>split-window\<close> command for the built
  command line and no \<^verbatim>\<open>send-keys\<close> command. When \<^verbatim>\<open>split-window\<close>
  exits with code 0 the dispatch returns the result naming \<open>tmux\<close>; the pane id it
  printed, trimmed, is then the content of the registry file, and writing it was the last
  action of the dispatch. No action is left to happen late.
\<close>

theorem spawnCanvas_creates_pane:
  fixes p h kind ident configJson options w c
  defines "cmd \<equiv> canvas_command p kind ident configJson options"
    and "R \<equiv> spawnCanvas p h kind ident configJson options w"
  assumes mux: "summary (detectTerminal p) = ''tmux''"
    and none: "fs w CANVAS_PANE_FILE = Absent \<or> (fs w CANVAS_PANE_FILE = Content c \<and> trim c = [])"
  shows "Spawn ''tmux'' (split_args cmd) \<in> set (new_events w (snd R)) \<and>
         \<not> list_ex is_reuse_event (new_events w (snd R)) \<and>
         late (snd R) = late w \<and>
         (\<forall>out. spawn h ''tmux'' (split_args cmd) = Close (Some 0) out \<longrightarrow>
            fst R = Inr \<lparr>method_used = ''tmux'', pid = None\<rparr> \<and>
            (trim out \<noteq> [] \<longrightarrow>
               fs (snd R) CANVAS_PANE_FILE = Content (trim out) \<and>
               last (new_events w (snd R)) = Write CANVAS_PANE_FILE (trim out)))"
proof -
  define w0 where
    "w0 = (if truthy configJson then Bun_write (config_file ident) (the configJson) w else w)"
  have env: "\<not> (inGhostty (detectTerminal p) \<and> isMacOS (detectTerminal p))"
    "inTmux (detectTerminal p)"
    using mux by (simp_all add: detectTerminal_def Let_def split: if_splits)
  have R: "R = (case fst (spawnTmux h cmd w0) of
                  Inl e \<Rightarrow> (Inl e, snd (spawnTmux h cmd w0))
                | Inr b \<Rightarrow>
                    if b then (Inr \<lparr>method_used = ''tmux'', pid = None\<rparr>, snd (spawnTmux h cmd w0))
                    else (Inl (Error unsupported_message), snd (spawnTmux h cmd w0)))"
    unfolding R_def spawnCanvas_cases Let_def w0_def cmd_def using env by auto
  obtain e0 where e0: "trace w0 = trace w @ e0" "\<not> list_ex is_reuse_event e0"
    "Spawn ''tmux'' (split_args cmd) \<notin> set e0"
    by (cases "truthy configJson") (auto simp: w0_def world_simps is_reuse_event_def)
  have l0: "late w0 = late w" by (simp add: w0_def world_simps)
  have "fs w0 CANVAS_PANE_FILE = fs w CANVAS_PANE_FILE"
    using config_file_not_registry[of ident] by (simp add: w0_def world_simps)
  with none have
    "fs w0 CANVAS_PANE_FILE = Absent \<or> (fs w0 CANVAS_PANE_FILE = Content c \<and> trim c = [])"
    by simp
  from getCanvasPaneId_no_entry[OF this, of h cmd] obtain r w1 e1 where
    g: "getCanvasPaneId h w0 = (Inr r, w1)" "\<not> truthy r" and l1: "late w1 = late w0" and
    e1: "trace w1 = trace w0 @ e1" "\<not> list_ex is_reuse_event e1"
      "Spawn ''tmux'' (split_args cmd) \<notin> set e1"
    by blast
  have T: "spawnTmux h cmd w0 = createNewPane h cmd w1"
    using g by (rule spawnTmux_no_reference)
  show ?thesis
  proof (cases "spawn h ''tmux'' (split_args cmd)")
    case SpawnError
    then show ?thesis unfolding R T using e0 e1 l0 l1
      by (simp add: createNewPane_def Let_def world_simps new_events_def is_reuse_event_def
          split_args_def)
  next
    case SpawnThrows
    then show ?thesis unfolding R T using e0 e1 l0 l1
      by (simp add: createNewPane_def Let_def world_simps new_events_def is_reuse_event_def
          split_args_def)
  next
    case (Close code out)
    then show ?thesis unfolding R T using e0 e1 l0 l1
      by (simp add: createNewPane_def Let_def world_simps new_events_def is_reuse_event_def
          split_args_def saveCanvasPaneId_def)
  qed
qed

theorem spawnCanvas_creates_pane_witness:
  "summary (detectTerminal (example_env (Some ''/tmp/tmux-501/default,311,0'') None ''linux''))
     = ''tmux'' \<and>
   fs (example_world Absent) CANVAS_PANE_FILE = Absent \<and>
   fst (spawnCanvas (example_env (Some ''/tmp/tmux-501/default,311,0'') None ''linux'')
          (example_host SpawnError (Close (Some 0) [CHR ''%'', CHR ''9'', CHR 0x0A]) Throws)
          ''calendar'' ''c1'' (Some ''{}'') None (example_world Absent))
     = Inr \<lparr>method_used = ''tmux'', pid = None\<rparr> \<and>
   fs (snd (spawnCanvas (example_env (Some ''/tmp/tmux-501/default,311,0'') None ''linux'')
          (example_host SpawnError (Close (Some 0) [CHR ''%'', CHR ''9'', CHR 0x0A]) Throws)
          ''calendar'' ''c1'' (Some ''{}'') None (example_world Absent))) CANVAS_PANE_FILE
     = Content ''%9''"
proof -
  have m: "summary (detectTerminal
             (example_env (Some ''/tmp/tmux-501/default,311,0'') None ''linux'')) = ''tmux''"
    by (simp add: detectTerminal_def example_env_def truthy_def)
  have a: "fs (example_world Absent) CANVAS_PANE_FILE = Absent \<or>
           (fs (example_world Absent) CANVAS_PANE_FILE = Content [] \<and> trim [] = [])"
    by (simp add: example_world_def)
  have s: "spawn (example_host SpawnError (Close (Some 0) [CHR ''%'', CHR ''9'', CHR 0x0A]) Throws)
             ''tmux'' args = Close (Some 0) [CHR ''%'', CHR ''9'', CHR 0x0A]" for args
    by (simp add: example_host_def)
  have t: "trim [CHR ''%'', CHR ''9'', CHR 0x0A] = ''%9''"
    by (simp add: trim_def is_js_space_def)
  have f: "fs (example_world Absent) CANVAS_PANE_FILE = Absent"
    by (simp add: example_world_def)
  from spawnCanvas_creates_pane[OF m a,
      where h = "example_host SpawnError (Close (Some 0) [CHR ''%'', CHR ''9'', CHR 0x0A]) Throws"
        and kind = "''calendar''" and ident = "''c1''" and configJson = "Some ''{}''"
        and options = None] m a
  show ?thesis by (simp add: s t f)
qed

text \<open>
  C1, as the code has it. The registry file can be read and holds a pane id for which the
  lookup returns, with a status other than 0 or with another id. Then the dispatch issues
  the lookup, overwrites the registry file with empty content and issues
  \<^verbatim>\<open>split-window\<close>, in this order, and no \<^verbatim>\<open>send-keys\<close> command. When
  \<^verbatim>\<open>split-window\<close> exits with code 0 and prints a pane id, the dispatch succeeds and
  that id, trimmed, is written last and is the content of the registry file. Otherwise
  nothing is persisted: the registry file keeps its empty content. No action is left to
  happen late.
\<close>

theorem spawnTmux_stale_reference:
  fixes h w c cmd status stdout
  defines "R \<equiv> spawnTmux h cmd w"
  assumes stored: "fs w CANVAS_PANE_FILE = Content c"
    and readable: "\<not> text_fails h CANVAS_PANE_FILE"
    and lookup: "spawnSync h ''tmux'' (lookup_args (trim c)) = Returned status stdout"
    and stale: "\<not> (status = Some 0 \<and> map_option trim stdout = Some (trim c))"
  shows "\<not> list_ex is_reuse_event (new_events w (snd R)) \<and>
         late (snd R) = late w \<and>
         (\<exists>rest. new_events w (snd R) =
             [SpawnSync ''tmux'' (lookup_args (trim c)), Write CANVAS_PANE_FILE [],
              Spawn ''tmux'' (split_args cmd)] @ rest \<and>
            (rest = [] \<or> (\<exists>i. rest = [Write CANVAS_PANE_FILE i]))) \<and>
         (\<forall>out. spawn h ''tmux'' (split_args cmd) = Close (Some 0) out \<and> trim out \<noteq> [] \<longrightarrow>
            fst R = Inr True \<and> fs (snd R) CANVAS_PANE_FILE = Content (trim out) \<and>
            last (new_events w (snd R)) = Write CANVAS_PANE_FILE (trim out)) \<and>
         ((\<forall>out. spawn h ''tmux'' (split_args cmd) = Close (Some 0) out \<longrightarrow> trim out = []) \<longrightarrow>
            fs (snd R) CANVAS_PANE_FILE = Content [])"
proof -
  let ?w1 = "Bun_write CANVAS_PANE_FILE []
               (log_event (SpawnSync ''tmux'' (lookup_args (trim c))) w)"
  have g: "getCanvasPaneId h w = (Inr None, ?w1)"
    using stored readable lookup stale by (rule getCanvasPaneId_stale)
  have R: "R = createNewPane h cmd ?w1"
    unfolding R_def using g by (rule spawnTmux_no_reference) (simp add: truthy_def)
  show ?thesis
  proof (cases "spawn h ''tmux'' (split_args cmd)")
    case SpawnError
    then show ?thesis unfolding R
      by (simp add: createNewPane_def Let_def world_simps new_events_def is_reuse_event_def
          split_args_def)
  next
    case SpawnThrows
    then show ?thesis unfolding R
      by (simp add: createNewPane_def Let_def world_simps new_events_def is_reuse_event_def
          split_args_def)
  next
    case (Close code out)
    then show ?thesis unfolding R
      by (simp add: createNewPane_def Let_def world_simps new_events_def is_reuse_event_def
          split_args_def saveCanvasPaneId_def)
  qed
qed

theorem spawnTmux_stale_reference_witness:
  "fst (spawnTmux
          (example_host SpawnError (Close (Some 0) (''%9'' @ [CHR 0x0A])) (Returned (Some 1) (Some [])))
          ''run'' (example_world (Content ''%5''))) = Inr True \<and>
   fs (snd (spawnTmux
          (example_host SpawnError (Close (Some 0) (''%9'' @ [CHR 0x0A])) (Returned (Some 1) (Some [])))
          ''run'' (example_world (Content ''%5'')))) CANVAS_PANE_FILE = Content ''%9'' \<and>
   new_events (example_world (Content ''%5''))
     (snd (spawnTmux
          (example_host SpawnError (Close (Some 0) (''%9'' @ [CHR 0x0A])) (Returned (Some 1) (Some [])))
          ''run'' (example_world (Content ''%5'')))) =
     [SpawnSync ''tmux'' (lookup_args ''%5''), Write CANVAS_PANE_FILE [],
      Spawn ''tmux'' (split_args ''run''), Write CANVAS_PANE_FILE ''%9'']"
  using spawnTmux_stale_reference[of "example_world (Content ''%5'')" "''%5''"
      "example_host SpawnError (Close (Some 0) (''%9'' @ [CHR 0x0A])) (Returned (Some 1) (Some []))"
      "Some 1" "Some []" "''run''"]
  by (auto simp add: example_simps eval_simps)

text \<open>
  The multiplexer server is gone: the lookup for the stored pane fails, and so does
  \<^verbatim>\<open>split-window\<close>. The dispatch fails and the registry file is left empty; no pane
  was created and no id is persisted.
\<close>

theorem spawnTmux_stale_reference_counterexample:
  "fs (example_world (Content ''%5'')) CANVAS_PANE_FILE = Content ''%5'' \<and>
   spawnSync (example_host SpawnError (Close (Some 1) []) (Returned (Some 1) (Some [])))
      ''tmux'' (lookup_args ''%5'') = Returned (Some 1) (Some []) \<and>
   fst (spawnTmux (example_host SpawnError (Close (Some 1) []) (Returned (Some 1) (Some [])))
          ''run'' (example_world (Content ''%5''))) = Inr False \<and>
   fs (snd (spawnTmux (example_host SpawnError (Close (Some 1) []) (Returned (Some 1) (Some [])))
          ''run'' (example_world (Content ''%5'')))) CANVAS_PANE_FILE = Content []"
  by (simp add: spawnTmux_def getCanvasPaneId_def getCanvasPaneId_try_def createNewPane_def
      saveCanvasPaneId_def Bun_write_def log_event_def Let_def example_simps eval_simps)

section \<open>GUI dispatch\<close>

text \<open>
  C7 does not hold of the code. The source escapes the double quotes first and the
  backslashes second, so the backslash it has just put in front of a double quote is
  doubled by the second replacement: the double quote of \<open>a"b\<close> arrives as two
  backslashes and a double quote, where escaping quote and backslash only gives one
  backslash and a double quote. The same happens to every command line built with a
  configuration, which contains \<^verbatim>\<open>--config "$(cat ...)"\<close>.
\<close>

theorem ghostty_escape_escapes_twice:
  "ghostty_escape [CHR ''a'', CHR 0x22, CHR ''b''] =
     [CHR ''a'', CHR 0x5C, CHR 0x5C, CHR 0x22, CHR ''b''] \<and>
   spec_escape [CHR ''a'', CHR 0x22, CHR ''b''] = [CHR ''a'', CHR 0x5C, CHR 0x22, CHR ''b''] \<and>
   ghostty_escape (canvas_command (example_env None (Some ''ghostty'') ''darwin'')
                     ''calendar'' ''c1'' (Some ''{}'') None) \<noteq>
   spec_escape (canvas_command (example_env None (Some ''ghostty'') ''darwin'')
                  ''calendar'' ''c1'' (Some ''{}'') None)"
proof -
  have "truthy (Some ''{}'')" by (simp add: truthy_def)
  then have "CHR 0x22 \<in> set (canvas_command (example_env None (Some ''ghostty'') ''darwin'')
                                ''calendar'' ''c1'' (Some ''{}'') None)"
    by (rule canvas_command_has_quote)
  then have "ghostty_escape (canvas_command (example_env None (Some ''ghostty'') ''darwin'')
                     ''calendar'' ''c1'' (Some ''{}'') None) \<noteq>
   spec_escape (canvas_command (example_env None (Some ''ghostty'') ''darwin'')
                  ''calendar'' ''c1'' (Some ''{}'') None)"
    by (simp add: ghostty_escape_eq_iff)
  then show ?thesis
    by (simp add: ghostty_escape_def spec_escape_def replace_all_char_def)
qed

end
